theory Spec2Isabelle
  imports Complex_Main "HOL-Library.Word"
begin

unbundle bit_operations_syntax

section \<open>Constants (const.py)\<close>

type_synonym bytes = "8 word list"

definition UUID_WAKE :: string where
  "UUID_WAKE = ''e8680201-9c4b-11e4-b5f7-0002a5d5c51b''"

definition UUID_STATUS :: string where
  "UUID_STATUS = ''e8680102-9c4b-11e4-b5f7-0002a5d5c51b''"

definition UUID_CONTROL :: string where
  "UUID_CONTROL = ''e8680103-9c4b-11e4-b5f7-0002a5d5c51b''"

definition DEFAULT_SCAN_INTERVAL :: int where
  "DEFAULT_SCAN_INTERVAL = 300"

definition MAX_RETRIES :: nat where
  "MAX_RETRIES = 3"

definition COMMAND_VERIFY_ATTEMPTS :: nat where
  "COMMAND_VERIFY_ATTEMPTS = 3"

definition WAKE_SETTLE_DELAY :: real where
  "WAKE_SETTLE_DELAY = 1.0"

definition POST_COMMAND_DELAY :: real where
  "POST_COMMAND_DELAY = 1.5"

definition MAX_CONSECUTIVE_FAILURES :: int where
  "MAX_CONSECUTIVE_FAILURES = 5"

definition CMD_CLOSE_VALVE :: bytes where
  "CMD_CLOSE_VALVE = [1, 0, 0, 0, 0, 0, 0]"

definition CMD_OPEN_VALVE :: bytes where
  "CMD_OPEN_VALVE = [0, 1, 0, 0, 0, 0, 0]"

definition WAKE_PAYLOAD :: bytes where
  "WAKE_PAYLOAD = [1, 2]"

definition STATUS_VALVE_OPEN_MASK :: "8 word" where
  "STATUS_VALVE_OPEN_MASK = 1"

definition STATUS_MANUAL_OPEN_MASK :: "8 word" where
  "STATUS_MANUAL_OPEN_MASK = 1"

section \<open>Exceptions\<close>

text \<open>
  The exception classes the code raises or catches. \<open>ConnectionError\<close> carries the
  values interpolated into its message by \<open>_execute\<close>: the address, the attempt budget
  and the last underlying error. \<open>UpdateFailed\<close> carries its cause.
\<close>

datatype exn =
    BleakError string
  | TimeoutError
  | OSError string
  | ConnectionError string nat "exn option"
  | IndexError
  | UpdateFailed exn
  | OtherException string

text \<open>
  The clause \<open>except (BleakError, asyncio.TimeoutError, OSError)\<close>. Python's builtin
  \<open>ConnectionError\<close> is a subclass of \<open>OSError\<close>, so the clause catches it too.
\<close>

fun is_transient :: "exn \<Rightarrow> bool" where
  "is_transient (BleakError _) = True"
| "is_transient TimeoutError = True"
| "is_transient (OSError _) = True"
| "is_transient (ConnectionError _ _ _) = True"
| "is_transient IndexError = False"
| "is_transient (UpdateFailed _) = False"
| "is_transient (OtherException _) = False"

section \<open>Status codec (galcon_device.py)\<close>

record GalconStatus =
  valve_open :: bool
  manual_open :: bool
  hours_remaining :: int
  minutes_remaining :: int
  seconds_remaining :: int
  raw :: bytes
  battery_level :: "int option"

definition time_remaining_seconds :: "GalconStatus \<Rightarrow> int" where
  "time_remaining_seconds s =
     hours_remaining s * 3600 + minutes_remaining s * 60 + seconds_remaining s"

text \<open>Indexing a bytes object: \<open>data[i]\<close> raises IndexError out of range.\<close>

definition byte_at :: "bytes \<Rightarrow> nat \<Rightarrow> exn + 8 word" where
  "byte_at data i = (if i < length data then Inr (data ! i) else Inl IndexError)"

text \<open>\<open>bool(b & mask)\<close>\<close>

definition masked :: "8 word \<Rightarrow> 8 word \<Rightarrow> bool" where
  "masked b m = (b AND m \<noteq> 0)"

definition parse_status :: "bytes \<Rightarrow> exn + GalconStatus" where
  "parse_status data =
    (if length data < 5 then
       Inr \<lparr>valve_open = False, manual_open = False, hours_remaining = 0,
            minutes_remaining = 0, seconds_remaining = 0, raw = data,
            battery_level = None\<rparr>
     else
       case byte_at data 0 of Inl e \<Rightarrow> Inl e | Inr b0 \<Rightarrow>
       (case (if length data > 1
              then (case byte_at data 1 of Inl e \<Rightarrow> Inl e
                    | Inr b1 \<Rightarrow> Inr (masked b1 STATUS_MANUAL_OPEN_MASK))
              else Inr False) of Inl e \<Rightarrow> Inl e | Inr manual \<Rightarrow>
       (case (if length data > 2
              then (case byte_at data 2 of Inl e \<Rightarrow> Inl e | Inr b \<Rightarrow> Inr (uint b))
              else Inr 0) of Inl e \<Rightarrow> Inl e | Inr hours \<Rightarrow>
       (case (if length data > 3
              then (case byte_at data 3 of Inl e \<Rightarrow> Inl e | Inr b \<Rightarrow> Inr (uint b))
              else Inr 0) of Inl e \<Rightarrow> Inl e | Inr minutes \<Rightarrow>
       (case (if length data > 4
              then (case byte_at data 4 of Inl e \<Rightarrow> Inl e | Inr b \<Rightarrow> Inr (uint b))
              else Inr 0) of Inl e \<Rightarrow> Inl e | Inr seconds \<Rightarrow>
       (case (if length data > 5
              then (case byte_at data 5 of Inl e \<Rightarrow> Inl e | Inr b \<Rightarrow> Inr (Some (uint b)))
              else Inr None) of Inl e \<Rightarrow> Inl e | Inr battery \<Rightarrow>
         Inr \<lparr>valve_open = masked b0 STATUS_VALVE_OPEN_MASK, manual_open = manual,
              hours_remaining = hours, minutes_remaining = minutes,
              seconds_remaining = seconds, raw = data,
              battery_level = battery\<rparr>))))))"

section \<open>The radio link as an instrumented transport\<close>

text \<open>
  Every BLE call and every timed wait of the driver is recorded, in order, in a trace.
  What the peripheral answers is given by a \<open>peripheral\<close>: the outcome of the k-th
  connection attempt, of the k-th disconnect, of the k-th write to a characteristic
  and of the k-th read (k counts the earlier calls of the same kind in the trace).
  Any run of the driver against a real peripheral is the run against the \<open>peripheral\<close>
  that lists the outcomes the peripheral gave.
\<close>

datatype event =
    EEstablishConnection
  | EClientConnect
  | EDisconnect
  | EWrite string bytes
  | ERead string
  | ESleep real

type_synonym world = "event list"

record peripheral =
  connect_out :: "nat \<Rightarrow> exn + bool"
  disconnect_out :: "nat \<Rightarrow> exn option"
  write_out :: "string \<Rightarrow> nat \<Rightarrow> exn option"
  read_out :: "nat \<Rightarrow> exn + bytes"

fun is_connect :: "event \<Rightarrow> bool" where
  "is_connect EEstablishConnection = True"
| "is_connect EClientConnect = True"
| "is_connect _ = False"

fun is_disconnect :: "event \<Rightarrow> bool" where
  "is_disconnect EDisconnect = True"
| "is_disconnect _ = False"

fun is_write :: "string \<Rightarrow> event \<Rightarrow> bool" where
  "is_write u (EWrite u' _) = (u' = u)"
| "is_write u _ = False"

fun is_read :: "event \<Rightarrow> bool" where
  "is_read (ERead _) = True"
| "is_read _ = False"

definition n_connects :: "world \<Rightarrow> nat" where
  "n_connects w = length (filter is_connect w)"

definition n_disconnects :: "world \<Rightarrow> nat" where
  "n_disconnects w = length (filter is_disconnect w)"

definition n_writes :: "string \<Rightarrow> world \<Rightarrow> nat" where
  "n_writes u w = length (filter (is_write u) w)"

definition n_reads :: "world \<Rightarrow> nat" where
  "n_reads w = length (filter is_read w)"

text \<open>A computation that may raise and that extends the trace.\<close>

type_synonym 'a io = "world \<Rightarrow> (exn + 'a) \<times> world"

definition return_io :: "'a \<Rightarrow> 'a io" where
  "return_io x = (\<lambda>w. (Inr x, w))"

definition raise_io :: "exn \<Rightarrow> 'a io" where
  "raise_io e = (\<lambda>w. (Inl e, w))"

definition bind_io :: "'a io \<Rightarrow> ('a \<Rightarrow> 'b io) \<Rightarrow> 'b io" where
  "bind_io m f = (\<lambda>w. case m w of (Inl e, w') \<Rightarrow> (Inl e, w') | (Inr x, w') \<Rightarrow> f x w')"

text \<open>\<open>try: m except E as err: h err\<close>, for the exceptions that \<open>catches\<close> selects.\<close>

definition try_except :: "'a io \<Rightarrow> (exn \<Rightarrow> bool) \<Rightarrow> (exn \<Rightarrow> 'a io) \<Rightarrow> 'a io" where
  "try_except m catches h =
     (\<lambda>w. case m w of
        (Inl e, w') \<Rightarrow> (if catches e then h e w' else (Inl e, w'))
      | (Inr x, w') \<Rightarrow> (Inr x, w'))"

text \<open>
  \<open>try: m finally: fin\<close>: \<open>fin\<close> runs on every exit; an exception of \<open>fin\<close> replaces
  the result or exception of \<open>m\<close>.
\<close>

definition try_finally :: "'a io \<Rightarrow> unit io \<Rightarrow> 'a io" where
  "try_finally m fin =
     (\<lambda>w. case m w of (r, w') \<Rightarrow>
        (case fin w' of (Inl e, w'') \<Rightarrow> (Inl e, w'') | (Inr _, w'') \<Rightarrow> (r, w'')))"

definition sleep :: "real \<Rightarrow> unit io" where
  "sleep d = (\<lambda>w. (Inr (), w @ [ESleep d]))"

definition write_gatt_char :: "peripheral \<Rightarrow> string \<Rightarrow> bytes \<Rightarrow> unit io" where
  "write_gatt_char dev u payload =
     (\<lambda>w. ((case write_out dev u (n_writes u w) of Some e \<Rightarrow> Inl e | None \<Rightarrow> Inr ()),
           w @ [EWrite u payload]))"

definition read_gatt_char :: "peripheral \<Rightarrow> string \<Rightarrow> bytes io" where
  "read_gatt_char dev u = (\<lambda>w. (read_out dev (n_reads w), w @ [ERead u]))"

text \<open>
  Establishing a connection: through \<open>establish_connection\<close> when a BLEDevice hint is
  cached, through \<open>BleakClient(...).connect()\<close> otherwise. The result is the client's
  \<open>is_connected\<close>.
\<close>

definition connect_event :: "bool \<Rightarrow> event" where
  "connect_event has_ble_device =
     (if has_ble_device then EEstablishConnection else EClientConnect)"

definition connect :: "peripheral \<Rightarrow> bool \<Rightarrow> bool io" where
  "connect dev has_ble_device =
     (\<lambda>w. (connect_out dev (n_connects w), w @ [connect_event has_ble_device]))"

definition disconnect :: "peripheral \<Rightarrow> unit io" where
  "disconnect dev =
     (\<lambda>w. ((case disconnect_out dev (n_disconnects w) of Some e \<Rightarrow> Inl e | None \<Rightarrow> Inr ()),
           w @ [EDisconnect]))"

section \<open>Transport executor (GalconDevice._execute)\<close>

record GalconDevice =
  address :: string
  ble_device :: bool

text \<open>
  The body of \<open>for attempt in range(1, MAX_RETRIES + 1)\<close>, over the attempts still to
  run, with \<open>last_error\<close>; the empty list is the code after the loop.
\<close>

fun execute_loop ::
  "peripheral \<Rightarrow> GalconDevice \<Rightarrow> 'a io \<Rightarrow> nat list \<Rightarrow> exn option \<Rightarrow> 'a io" where
  "execute_loop dev self callback [] last_error =
     raise_io (ConnectionError (address self) MAX_RETRIES last_error)"
| "execute_loop dev self callback (attempt # rest) last_error =
     (\<lambda>w. case
        bind_io (connect dev (ble_device self)) (\<lambda>is_connected.
          try_finally
            (if \<not> is_connected then raise_io (BleakError ''Failed to connect'')
             else callback)
            (disconnect dev)) w
      of (Inr x, w') \<Rightarrow> (Inr x, w')
       | (Inl err, w') \<Rightarrow>
           (if is_transient err then
              bind_io
                (if attempt < MAX_RETRIES then sleep (2.0 * real attempt)
                 else return_io ())
                (\<lambda>_. execute_loop dev self callback rest (Some err)) w'
            else (Inl err, w')))"

definition execute :: "peripheral \<Rightarrow> GalconDevice \<Rightarrow> 'a io \<Rightarrow> 'a io" where
  "execute dev self callback =
     execute_loop dev self callback [1 ..< MAX_RETRIES + 1] None"

section \<open>Device driver (GalconDevice)\<close>

definition wake_up :: "peripheral \<Rightarrow> unit io" where
  "wake_up dev =
     bind_io (write_gatt_char dev UUID_WAKE WAKE_PAYLOAD) (\<lambda>_. sleep WAKE_SETTLE_DELAY)"

definition read_status_raw :: "peripheral \<Rightarrow> GalconStatus io" where
  "read_status_raw dev =
     bind_io (read_gatt_char dev UUID_STATUS) (\<lambda>data w. (parse_status data, w))"

definition get_status :: "peripheral \<Rightarrow> GalconDevice \<Rightarrow> GalconStatus io" where
  "get_status dev self =
     execute dev self (bind_io (wake_up dev) (\<lambda>_. read_status_raw dev))"

text \<open>
  What a command returns: a status object, or one of Python's \<open>False\<close> and \<open>None\<close>.
  In a test such as \<open>if real_status\<close> a status object counts as true (the dataclass
  defines neither \<open>__bool__\<close> nor \<open>__len__\<close>), \<open>False\<close> and \<open>None\<close> as false.
\<close>

datatype cmd_result = Status GalconStatus | PyFalse | PyNone

text \<open>
  The body of \<open>for attempt in range(1, COMMAND_VERIFY_ATTEMPTS + 1)\<close> in
  \<open>_verified_command\<close>; the empty list is the code after the loop.
\<close>

fun verify_loop :: "peripheral \<Rightarrow> bytes \<Rightarrow> bool \<Rightarrow> nat list \<Rightarrow> cmd_result io" where
  "verify_loop dev payload expect_open [] = return_io PyFalse"
| "verify_loop dev payload expect_open (attempt # rest) =
     bind_io (write_gatt_char dev UUID_CONTROL payload) (\<lambda>_.
     bind_io (sleep POST_COMMAND_DELAY) (\<lambda>_.
     bind_io (try_except
                (bind_io (write_gatt_char dev UUID_WAKE WAKE_PAYLOAD) (\<lambda>_. sleep 0.5))
                is_transient (\<lambda>_. return_io ())) (\<lambda>_.
     bind_io (try_except
                (bind_io (read_status_raw dev) (\<lambda>post_status.
                   return_io (if valve_open post_status = expect_open
                              then Some post_status else None)))
                is_transient (\<lambda>err. return_io None)) (\<lambda>confirmed.
     case confirmed of
       Some post_status \<Rightarrow> return_io (Status post_status)
     | None \<Rightarrow> bind_io (sleep 1.0) (\<lambda>_. verify_loop dev payload expect_open rest)))))"

definition verified_command :: "peripheral \<Rightarrow> bytes \<Rightarrow> bool \<Rightarrow> cmd_result io" where
  "verified_command dev payload expect_open =
     bind_io (wake_up dev) (\<lambda>_.
     bind_io (read_status_raw dev) (\<lambda>pre_status.
       if valve_open pre_status = expect_open then return_io (Status pre_status)
       else verify_loop dev payload expect_open [1 ..< COMMAND_VERIFY_ATTEMPTS + 1]))"

definition open_payload :: "int \<Rightarrow> int \<Rightarrow> int \<Rightarrow> bytes" where
  "open_payload hours minutes seconds =
     (if hours = 0 \<and> minutes = 0 \<and> seconds = 0 then CMD_OPEN_VALVE
      else [0, 3, 0, word_of_int hours, word_of_int minutes, word_of_int seconds, 0])"

text \<open>The nested callbacks \<open>_open\<close> and \<open>_close\<close>: they log and return the result.\<close>

definition open_callback :: "peripheral \<Rightarrow> int \<Rightarrow> int \<Rightarrow> int \<Rightarrow> cmd_result io" where
  "open_callback dev hours minutes seconds =
     bind_io (verified_command dev (open_payload hours minutes seconds) True)
       (\<lambda>result. return_io result)"

definition open_valve ::
  "peripheral \<Rightarrow> GalconDevice \<Rightarrow> int \<Rightarrow> int \<Rightarrow> int \<Rightarrow> cmd_result io" where
  "open_valve dev self hours minutes seconds =
     execute dev self (open_callback dev hours minutes seconds)"

definition close_callback :: "peripheral \<Rightarrow> cmd_result io" where
  "close_callback dev =
     bind_io (verified_command dev CMD_CLOSE_VALVE False) (\<lambda>result. return_io result)"

definition close_valve :: "peripheral \<Rightarrow> GalconDevice \<Rightarrow> cmd_result io" where
  "close_valve dev self = execute dev self (close_callback dev)"

section \<open>Poll/command coordinator (coordinator.py)\<close>

datatype OperationState =
  IDLE | CONNECTING | OPENING | CLOSING | VERIFYING | CONFIRMED | ERROR | SCANNING

text \<open>
  The coordinator's fields. Timestamps are readings of the clock, passed to each
  operation as \<open>now\<close>; \<open>update_interval\<close> is the timedelta in seconds. Two fields
  record what the collaborators observe: \<open>phase_log\<close>, the phase at each call of the
  registered listeners, and \<open>published\<close>, the statuses handed to
  \<open>async_set_updated_data\<close>, which also stores the latest in \<open>data\<close>. Listeners are
  taken to return normally. The per-device lock serialises the driver calls; the model
  runs one call at a time.
\<close>

record GalconCoordinator =
  device :: GalconDevice
  consecutive_failures :: int
  last_successful_poll :: "int option"
  last_known_status :: "GalconStatus option"
  polling_enabled :: bool
  base_interval :: int
  duration_minutes :: int
  last_irrigation_start :: "int option"
  last_irrigation_duration_min :: "int option"
  current_irrigation_start :: "int option"
  current_irrigation_duration :: int
  operation_state :: OperationState
  update_interval :: int
  data :: "GalconStatus option"
  phase_log :: "OperationState list"
  published :: "GalconStatus list"

text \<open>A coordinator operation: may raise, updates the coordinator and the trace.\<close>

type_synonym 'a coord_op =
  "GalconCoordinator \<Rightarrow> world \<Rightarrow> (exn + 'a) \<times> GalconCoordinator \<times> world"

definition timedelta_seconds :: "int \<Rightarrow> int" where
  "timedelta_seconds s = s"

definition timedelta_hours :: "int \<Rightarrow> int" where
  "timedelta_hours h = h * 3600"

definition init_coordinator :: "GalconDevice \<Rightarrow> int option \<Rightarrow> GalconCoordinator" where
  "init_coordinator dv scan_interval =
     (let base = (case scan_interval of None \<Rightarrow> DEFAULT_SCAN_INTERVAL
                  | Some n \<Rightarrow> if n = 0 then DEFAULT_SCAN_INTERVAL else n)
      in \<lparr>device = dv, consecutive_failures = 0, last_successful_poll = None,
          last_known_status = None, polling_enabled = False, base_interval = base,
          duration_minutes = 20, last_irrigation_start = None,
          last_irrigation_duration_min = None, current_irrigation_start = None,
          current_irrigation_duration = 0, operation_state = IDLE,
          update_interval = timedelta_seconds base, data = None, phase_log = [],
          published = []\<rparr>)"

definition set_operation_state :: "OperationState \<Rightarrow> GalconCoordinator \<Rightarrow> GalconCoordinator" where
  "set_operation_state state c =
     c\<lparr>operation_state := state, phase_log := phase_log c @ [state]\<rparr>"

definition reachable :: "GalconCoordinator \<Rightarrow> bool" where
  "reachable c = (consecutive_failures c < MAX_CONSECUTIVE_FAILURES)"

definition set_polling :: "bool \<Rightarrow> GalconCoordinator \<Rightarrow> GalconCoordinator" where
  "set_polling enabled c =
     (let c1 = c\<lparr>polling_enabled := enabled\<rparr> in
      if enabled then
        c1\<lparr>consecutive_failures := 0,
           update_interval := timedelta_seconds (base_interval c1)\<rparr>
      else
        set_operation_state IDLE (c1\<lparr>update_interval := timedelta_hours 24\<rparr>))"

definition async_set_updated_data :: "GalconStatus \<Rightarrow> GalconCoordinator \<Rightarrow> GalconCoordinator" where
  "async_set_updated_data s c = c\<lparr>data := Some s, published := published c @ [s]\<rparr>"

definition closed_status :: "bytes \<Rightarrow> int option \<Rightarrow> GalconStatus" where
  "closed_status r b =
     \<lparr>valve_open = False, manual_open = False, hours_remaining = 0,
      minutes_remaining = 0, seconds_remaining = 0, raw = r, battery_level = b\<rparr>"

text \<open>\<open>self._last_known_status.raw if self._last_known_status else b""\<close>\<close>

definition carried_raw :: "GalconCoordinator \<Rightarrow> bytes" where
  "carried_raw c = (case last_known_status c of Some s \<Rightarrow> raw s | None \<Rightarrow> [])"

definition carried_battery :: "GalconCoordinator \<Rightarrow> int option" where
  "carried_battery c =
     (case last_known_status c of Some s \<Rightarrow> battery_level s | None \<Rightarrow> None)"

definition async_update_data :: "peripheral \<Rightarrow> int \<Rightarrow> GalconStatus coord_op" where
  "async_update_data dev now c w =
     (if \<not> polling_enabled c then
        (case last_known_status c of
           Some s \<Rightarrow> (Inr s, c, w)
         | None \<Rightarrow>
             (let synthetic = closed_status [] None
              in (Inr synthetic, c\<lparr>last_known_status := Some synthetic\<rparr>, w)))
      else
        (let c1 = set_operation_state SCANNING c in
         case get_status dev (device c1) w of
           (Inr status, w') \<Rightarrow>
             (Inr status,
              set_operation_state IDLE
                (c1\<lparr>consecutive_failures := 0, last_successful_poll := Some now,
                    last_known_status := Some status\<rparr>),
              w')
         | (Inl err, w') \<Rightarrow>
             (let c2 = set_operation_state IDLE
                         (c1\<lparr>consecutive_failures := consecutive_failures c1 + 1\<rparr>)
              in case last_known_status c2 of
                   Some s \<Rightarrow> (Inr s, c2, w')
                 | None \<Rightarrow> (Inl (UpdateFailed err), c2, w'))))"

definition record_irrigation_start :: "int \<Rightarrow> int \<Rightarrow> GalconCoordinator \<Rightarrow> GalconCoordinator" where
  "record_irrigation_start now duration c =
     c\<lparr>current_irrigation_start := Some now, current_irrigation_duration := duration\<rparr>"

definition record_irrigation_end :: "GalconCoordinator \<Rightarrow> GalconCoordinator" where
  "record_irrigation_end c =
     (case current_irrigation_start c of
        Some t \<Rightarrow>
          c\<lparr>last_irrigation_start := Some t,
            last_irrigation_duration_min := Some (current_irrigation_duration c),
            current_irrigation_start := None\<rparr>
      | None \<Rightarrow> c)"

definition async_open_valve ::
  "peripheral \<Rightarrow> int \<Rightarrow> int \<Rightarrow> int \<Rightarrow> int \<Rightarrow> unit coord_op" where
  "async_open_valve dev now hours minutes seconds c w =
     (let c1 = set_operation_state CONNECTING c;
          c2 = set_operation_state OPENING c1
      in case open_valve dev (device c2) hours minutes seconds w of
           (Inl err, w') \<Rightarrow> (Inl err, set_operation_state ERROR c2, w')
         | (Inr real_status, w') \<Rightarrow>
             (let c3 = set_operation_state CONFIRMED c2;
                  st = (case real_status of
                          Status s \<Rightarrow> s
                        | _ \<Rightarrow> \<lparr>valve_open = True, manual_open = True,
                                hours_remaining = hours, minutes_remaining = minutes,
                                seconds_remaining = seconds, raw = carried_raw c3,
                                battery_level = carried_battery c3\<rparr>);
                  c4 = c3\<lparr>last_known_status := Some st\<rparr>;
                  c5 = record_irrigation_start now
                         (hours * 60 + minutes + (if seconds \<noteq> 0 then 1 else 0)) c4
              in (Inr (), async_set_updated_data st c5, w')))"

definition async_close_valve :: "peripheral \<Rightarrow> unit coord_op" where
  "async_close_valve dev c w =
     (let c1 = set_operation_state CONNECTING c;
          c2 = set_operation_state CLOSING c1
      in case close_valve dev (device c2) w of
           (Inl err, w') \<Rightarrow> (Inl err, set_operation_state ERROR c2, w')
         | (Inr real_status, w') \<Rightarrow>
             (let c3 = record_irrigation_end (set_operation_state CONFIRMED c2);
                  st = (case real_status of
                          Status s \<Rightarrow> s
                        | _ \<Rightarrow> closed_status (carried_raw c3) (carried_battery c3));
                  c4 = c3\<lparr>last_known_status := Some st\<rparr>
              in (Inr (), async_set_updated_data st c4, w')))"

definition async_irrigation_ended :: "GalconCoordinator \<Rightarrow> GalconCoordinator" where
  "async_irrigation_ended c =
     (let c1 = record_irrigation_end c;
          st = closed_status (carried_raw c1) (carried_battery c1);
          c2 = c1\<lparr>last_known_status := Some st\<rparr>
      in set_polling False (async_set_updated_data st c2))"

section \<open>Driving the coordinator; sample peripherals\<close>

text \<open>
  The host framework calls \<open>_async_update_data\<close> once per poll tick. \<open>poll_cycles\<close>
  runs one poll cycle per clock reading of the list, whatever each cycle returns or
  raises.
\<close>

fun poll_cycles ::
  "peripheral \<Rightarrow> int list \<Rightarrow> GalconCoordinator \<Rightarrow> world \<Rightarrow> GalconCoordinator \<times> world" where
  "poll_cycles dev [] c w = (c, w)"
| "poll_cycles dev (now # ticks) c w =
     (case async_update_data dev now c w of (_, c', w') \<Rightarrow> poll_cycles dev ticks c' w')"

text \<open>
  Peripherals for the concrete runs below. A scripted peripheral answers from lists:
  the k-th connection attempt, disconnect, wake write, control write and read have the
  k-th outcome of their list; past the end of a list every call succeeds, and a read
  returns the buffer \<open>final\<close>. The peripheral \<open>out_of_range\<close> times out on every
  connection attempt.
\<close>

definition nth_or :: "'a list \<Rightarrow> 'a \<Rightarrow> nat \<Rightarrow> 'a" where
  "nth_or xs d k = (if k < length xs then xs ! k else d)"

definition scripted ::
  "(exn + bool) list \<Rightarrow> exn option list \<Rightarrow> exn option list \<Rightarrow> exn option list \<Rightarrow>
     (exn + bytes) list \<Rightarrow> bytes \<Rightarrow> peripheral" where
  "scripted connects disconnects wakes controls reads final =
     \<lparr>connect_out = nth_or connects (Inr True),
      disconnect_out = nth_or disconnects None,
      write_out = (\<lambda>u. if u = UUID_WAKE then nth_or wakes None
                        else if u = UUID_CONTROL then nth_or controls None
                        else (\<lambda>_. None)),
      read_out = nth_or reads (Inr final)\<rparr>"

definition out_of_range :: peripheral where
  "out_of_range =
     \<lparr>connect_out = (\<lambda>_. Inl TimeoutError), disconnect_out = (\<lambda>_. None),
      write_out = (\<lambda>_ _. None), read_out = (\<lambda>_. Inl TimeoutError)\<rparr>"

definition sample_device :: GalconDevice where
  "sample_device = \<lparr>address = ''AA:BB:CC:DD:EE:FF'', ble_device = False\<rparr>"

definition sample_coordinator :: GalconCoordinator where
  "sample_coordinator = init_coordinator sample_device None"

text \<open>
  How one verify cycle can go, read off the outcomes of the peripheral: the re-wake
  either succeeds or fails with an exception that the loop swallows; the readback
  either gives a status whose \<open>valve_open\<close> is the expected one, or gives one that is
  not, or fails with an exception that the loop logs and skips.
\<close>

definition rewake_swallowed :: "exn option \<Rightarrow> bool" where
  "rewake_swallowed r = (case r of None \<Rightarrow> True | Some e \<Rightarrow> is_transient e)"

definition readback_matches :: "bool \<Rightarrow> exn + bytes \<Rightarrow> bool" where
  "readback_matches expect_open r =
     (case r of
        Inl e \<Rightarrow> False
      | Inr buf \<Rightarrow> (case parse_status buf of
                     Inl e \<Rightarrow> False
                   | Inr st \<Rightarrow> valve_open st = expect_open))"

definition readback_no_match :: "bool \<Rightarrow> exn + bytes \<Rightarrow> bool" where
  "readback_no_match expect_open r =
     (case r of
        Inl e \<Rightarrow> is_transient e
      | Inr buf \<Rightarrow> (case parse_status buf of
                     Inl e \<Rightarrow> is_transient e
                   | Inr st \<Rightarrow> valve_open st \<noteq> expect_open))"



fun slept :: "event \<Rightarrow> real list" where
  "slept (ESleep d) = [d]"
| "slept _ = []"


text \<open>A coordinator twenty minutes into a watering, with a cached status.\<close>

definition watering_coordinator :: GalconCoordinator where
  "watering_coordinator =
     sample_coordinator
       \<lparr>last_known_status :=
          Some \<lparr>valve_open = True, manual_open = True, hours_remaining = 0,
                minutes_remaining = 20, seconds_remaining = 0,
                raw = [1, 1, 0, 20, 0, 87], battery_level = Some 87\<rparr>,
        polling_enabled := True,
        current_irrigation_start := Some 1000,
        current_irrigation_duration := 20\<rparr>"

section \<open>Verified properties\<close>

subsection \<open>Counting events of a trace\<close>

lemma uuid_distinct:
  "UUID_WAKE \<noteq> UUID_CONTROL" "UUID_CONTROL \<noteq> UUID_WAKE"
  "UUID_WAKE \<noteq> UUID_STATUS" "UUID_STATUS \<noteq> UUID_WAKE"
  "UUID_STATUS \<noteq> UUID_CONTROL" "UUID_CONTROL \<noteq> UUID_STATUS"
  by (simp_all add: UUID_WAKE_def UUID_CONTROL_def UUID_STATUS_def)

lemma n_connects_snoc:
  "n_connects (w @ [e]) = (if is_connect e then Suc (n_connects w) else n_connects w)"
  by (simp add: n_connects_def)

lemma n_disconnects_snoc:
  "n_disconnects (w @ [e]) =
     (if is_disconnect e then Suc (n_disconnects w) else n_disconnects w)"
  by (simp add: n_disconnects_def)

lemma n_writes_snoc:
  "n_writes u (w @ [e]) = (if is_write u e then Suc (n_writes u w) else n_writes u w)"
  by (simp add: n_writes_def)

lemma n_reads_snoc:
  "n_reads (w @ [e]) = (if is_read e then Suc (n_reads w) else n_reads w)"
  by (simp add: n_reads_def)

lemmas count_snoc = n_connects_snoc n_disconnects_snoc n_writes_snoc n_reads_snoc

subsection \<open>Status codec\<close>

lemma parse_status_short:
  "length buf < 5 \<Longrightarrow> parse_status buf =
      Inr \<lparr>valve_open = False, manual_open = False, hours_remaining = 0,
           minutes_remaining = 0, seconds_remaining = 0, raw = buf,
           battery_level = None\<rparr>"
  by (simp add: parse_status_def)

lemma masked_one: "masked b 1 = bit b 0"
  by (simp add: masked_def and_one_eq mod_2_eq_odd bit_0)

lemma parse_status_long:
  "5 \<le> length buf \<Longrightarrow> parse_status buf =
      Inr \<lparr>valve_open = bit (buf ! 0) 0, manual_open = bit (buf ! 1) 0,
           hours_remaining = uint (buf ! 2), minutes_remaining = uint (buf ! 3),
           seconds_remaining = uint (buf ! 4), raw = buf,
           battery_level = (if 5 < length buf then Some (uint (buf ! 5)) else None)\<rparr>"
  by (auto simp add: parse_status_def byte_at_def masked_one STATUS_VALVE_OPEN_MASK_def
        STATUS_MANUAL_OPEN_MASK_def)

lemma parse_status_total: "\<exists>st. parse_status buf = Inr st"
proof (cases "length buf < 5")
  case True
  then show ?thesis by (simp add: parse_status_short)
next
  case False
  then have "5 \<le> length buf" by simp
  then show ?thesis by (simp add: parse_status_long)
qed

text \<open>
  Claim C6. \<open>_parse_status\<close> never raises: every index it reads is in range, so it
  returns a status for every buffer. A buffer shorter than 5 bytes gives the all-false,
  all-zero status with \<open>raw\<close> the buffer itself and no battery level. A buffer of 5 bytes
  or more gives \<open>valve_open\<close> = bit 0 of byte 0, \<open>manual_open\<close> = bit 0 of byte 1, hours,
  minutes and seconds = bytes 2, 3 and 4 as unsigned values, and the battery level = byte
  5 when the buffer has one. The buffer 01 00 01 05 00 decodes to open, not manual,
  1 h 5 min 0 s, no battery level.
\<close>

theorem parse_status_total_layout:
  "(\<exists>st. parse_status buf = Inr st) \<and>
   (length buf < 5 \<longrightarrow> parse_status buf =
      Inr \<lparr>valve_open = False, manual_open = False, hours_remaining = 0,
           minutes_remaining = 0, seconds_remaining = 0, raw = buf,
           battery_level = None\<rparr>) \<and>
   (5 \<le> length buf \<longrightarrow> parse_status buf =
      Inr \<lparr>valve_open = bit (buf ! 0) 0, manual_open = bit (buf ! 1) 0,
           hours_remaining = uint (buf ! 2), minutes_remaining = uint (buf ! 3),
           seconds_remaining = uint (buf ! 4), raw = buf,
           battery_level = (if 5 < length buf then Some (uint (buf ! 5)) else None)\<rparr>) \<and>
   parse_status [0x01, 0x00, 0x01, 0x05, 0x00] =
      Inr \<lparr>valve_open = True, manual_open = False, hours_remaining = 1,
           minutes_remaining = 5, seconds_remaining = 0,
           raw = [0x01, 0x00, 0x01, 0x05, 0x00], battery_level = None\<rparr>"
  using parse_status_total [of buf] parse_status_short [of buf] parse_status_long [of buf]
    parse_status_long [of "[0x01, 0x00, 0x01, 0x05, 0x00]"]
  by simp

theorem parse_status_total_layout_witness:
  "length [7, 1, 9 :: 8 word] < 5 \<and>
   parse_status [7, 1, 9] =
      Inr \<lparr>valve_open = False, manual_open = False, hours_remaining = 0,
           minutes_remaining = 0, seconds_remaining = 0, raw = [7, 1, 9],
           battery_level = None\<rparr> \<and>
   5 \<le> length [3, 1, 200, 61, 99, 77, 9 :: 8 word] \<and>
   parse_status [3, 1, 200, 61, 99, 77, 9] =
      Inr \<lparr>valve_open = True, manual_open = True, hours_remaining = 200,
           minutes_remaining = 61, seconds_remaining = 99,
           raw = [3, 1, 200, 61, 99, 77, 9], battery_level = Some 77\<rparr>"
  using parse_status_total_layout [of "[7, 1, 9]"]
    parse_status_total_layout [of "[3, 1, 200, 61, 99, 77, 9]"]
  by simp

subsection \<open>Transport executor and verify loop, one step at a time\<close>

lemma is_connect_connect_event [simp]: "is_connect (connect_event b)"
  and is_disconnect_connect_event [simp]: "\<not> is_disconnect (connect_event b)"
  and is_write_connect_event [simp]: "\<not> is_write u (connect_event b)"
  and is_read_connect_event [simp]: "\<not> is_read (connect_event b)"
  by (simp_all add: connect_event_def)

lemma execute_loop_returns:
  assumes "connect_out dev (n_connects w) = Inr True"
    and "callback (w @ [connect_event (ble_device self)]) = (Inr x, w1)"
    and "disconnect_out dev (n_disconnects w1) = None"
  shows "execute_loop dev self callback (attempt # rest) last_error w =
           (Inr x, w1 @ [EDisconnect])"
  using assms
  by (simp add: bind_io_def connect_def try_finally_def disconnect_def)



lemma wake_up_ok:
  assumes "write_out dev UUID_WAKE (n_writes UUID_WAKE w) = None"
  shows "wake_up dev w = (Inr (), w @ [EWrite UUID_WAKE WAKE_PAYLOAD, ESleep WAKE_SETTLE_DELAY])"
  using assms by (simp add: wake_up_def bind_io_def write_gatt_char_def sleep_def)

lemma read_status_raw_ok:
  assumes "read_out dev (n_reads w) = Inr buf"
  shows "read_status_raw dev w = (parse_status buf, w @ [ERead UUID_STATUS])"
  using assms by (simp add: read_status_raw_def bind_io_def read_gatt_char_def)

lemma read_status_raw_fails:
  assumes "read_out dev (n_reads w) = Inl e"
  shows "read_status_raw dev w = (Inl e, w @ [ERead UUID_STATUS])"
  using assms by (simp add: read_status_raw_def bind_io_def read_gatt_char_def)


text \<open>The events of one verify cycle that does not confirm.\<close>

lemma verify_cycle_no_match:
  assumes "write_out dev UUID_CONTROL (n_writes UUID_CONTROL w) = None"
    and "rewake_swallowed (write_out dev UUID_WAKE (n_writes UUID_WAKE w))"
    and "readback_no_match expect_open (read_out dev (n_reads w))"
  shows "\<exists>w'. verify_loop dev payload expect_open (attempt # rest) w =
                 verify_loop dev payload expect_open rest w' \<and>
              n_writes UUID_CONTROL w' = Suc (n_writes UUID_CONTROL w) \<and>
              n_writes UUID_WAKE w' = Suc (n_writes UUID_WAKE w) \<and>
              n_reads w' = Suc (n_reads w) \<and>
              n_connects w' = n_connects w \<and> n_disconnects w' = n_disconnects w"
proof -
  define w1 where "w1 = w @ [EWrite UUID_CONTROL payload, ESleep POST_COMMAND_DELAY]"
  define w2 where "w2 = w1 @ EWrite UUID_WAKE WAKE_PAYLOAD #
      (if write_out dev UUID_WAKE (n_writes UUID_WAKE w) = None then [ESleep 0.5] else [])"
  define w3 where "w3 = w2 @ [ERead UUID_STATUS, ESleep 1]"
  have c1: "n_writes UUID_WAKE w1 = n_writes UUID_WAKE w" "n_reads w1 = n_reads w"
    by (simp_all add: w1_def n_writes_def n_reads_def uuid_distinct)
  have rewake: "try_except
                (bind_io (write_gatt_char dev UUID_WAKE WAKE_PAYLOAD) (\<lambda>_. sleep 0.5))
                is_transient (\<lambda>_. return_io ()) w1 = (Inr (), w2)"
    using assms(2)
    by (auto simp add: try_except_def bind_io_def write_gatt_char_def sleep_def return_io_def
          rewake_swallowed_def c1 w2_def split: option.splits)
  have c2: "n_reads w2 = n_reads w"
    by (simp add: w2_def w1_def n_reads_def)
  have readback: "try_except
                (bind_io (read_status_raw dev) (\<lambda>post_status.
                   return_io (if valve_open post_status = expect_open
                              then Some post_status else None)))
                is_transient (\<lambda>err. return_io None) w2 = (Inr None, w2 @ [ERead UUID_STATUS])"
    using assms(3)
    by (auto simp add: try_except_def bind_io_def read_status_raw_def read_gatt_char_def
          return_io_def readback_no_match_def c2 split: sum.splits)
  have "verify_loop dev payload expect_open (attempt # rest) w =
          verify_loop dev payload expect_open rest w3"
    using assms(1) rewake readback
    by (simp add: bind_io_def write_gatt_char_def sleep_def w1_def w3_def)
  moreover have "n_writes UUID_CONTROL w3 = Suc (n_writes UUID_CONTROL w)"
    "n_writes UUID_WAKE w3 = Suc (n_writes UUID_WAKE w)"
    "n_reads w3 = Suc (n_reads w)"
    "n_connects w3 = n_connects w" "n_disconnects w3 = n_disconnects w"
    by (simp_all add: w3_def w2_def w1_def n_writes_def n_reads_def n_connects_def
          n_disconnects_def uuid_distinct)
  ultimately show ?thesis by blast
qed

lemma verify_cycle_match:
  assumes "write_out dev UUID_CONTROL (n_writes UUID_CONTROL w) = None"
    and "rewake_swallowed (write_out dev UUID_WAKE (n_writes UUID_WAKE w))"
    and "read_out dev (n_reads w) = Inr buf"
    and "parse_status buf = Inr st"
    and "valve_open st = expect_open"
  shows "\<exists>w'. verify_loop dev payload expect_open (attempt # rest) w =
                 (Inr (Status st), w') \<and>
              n_writes UUID_CONTROL w' = Suc (n_writes UUID_CONTROL w) \<and>
              n_writes UUID_WAKE w' = Suc (n_writes UUID_WAKE w) \<and>
              n_reads w' = Suc (n_reads w) \<and>
              n_connects w' = n_connects w \<and> n_disconnects w' = n_disconnects w"
proof -
  define w1 where "w1 = w @ [EWrite UUID_CONTROL payload, ESleep POST_COMMAND_DELAY]"
  define w2 where "w2 = w1 @ EWrite UUID_WAKE WAKE_PAYLOAD #
      (if write_out dev UUID_WAKE (n_writes UUID_WAKE w) = None then [ESleep 0.5] else [])"
  define w3 where "w3 = w2 @ [ERead UUID_STATUS]"
  have c1: "n_writes UUID_WAKE w1 = n_writes UUID_WAKE w" "n_reads w1 = n_reads w"
    by (simp_all add: w1_def n_writes_def n_reads_def uuid_distinct)
  have rewake: "try_except
                (bind_io (write_gatt_char dev UUID_WAKE WAKE_PAYLOAD) (\<lambda>_. sleep 0.5))
                is_transient (\<lambda>_. return_io ()) w1 = (Inr (), w2)"
    using assms(2)
    by (auto simp add: try_except_def bind_io_def write_gatt_char_def sleep_def return_io_def
          rewake_swallowed_def c1 w2_def split: option.splits)
  have c2: "n_reads w2 = n_reads w"
    by (simp add: w2_def w1_def n_reads_def)
  have readback: "try_except
                (bind_io (read_status_raw dev) (\<lambda>post_status.
                   return_io (if valve_open post_status = expect_open
                              then Some post_status else None)))
                is_transient (\<lambda>err. return_io None) w2 = (Inr (Some st), w3)"
    using assms(3-5)
    by (simp add: try_except_def bind_io_def read_status_raw_def read_gatt_char_def
          return_io_def c2 w3_def)
  have "verify_loop dev payload expect_open (attempt # rest) w = (Inr (Status st), w3)"
    using assms(1) rewake readback
    by (simp add: bind_io_def write_gatt_char_def sleep_def w1_def return_io_def)
  moreover have "n_writes UUID_CONTROL w3 = Suc (n_writes UUID_CONTROL w)"
    "n_writes UUID_WAKE w3 = Suc (n_writes UUID_WAKE w)"
    "n_reads w3 = Suc (n_reads w)"
    "n_connects w3 = n_connects w" "n_disconnects w3 = n_disconnects w"
    by (simp_all add: w3_def w2_def w1_def n_writes_def n_reads_def n_connects_def
          n_disconnects_def uuid_distinct)
  ultimately show ?thesis by blast
qed

lemma verify_loop_never_matches:
  assumes "\<forall>i<length attempts.
             write_out dev UUID_CONTROL (n_writes UUID_CONTROL w + i) = None \<and>
             rewake_swallowed (write_out dev UUID_WAKE (n_writes UUID_WAKE w + i)) \<and>
             readback_no_match expect_open (read_out dev (n_reads w + i))"
  shows "\<exists>w'. verify_loop dev payload expect_open attempts w = (Inr PyFalse, w') \<and>
              n_writes UUID_CONTROL w' = n_writes UUID_CONTROL w + length attempts \<and>
              n_writes UUID_WAKE w' = n_writes UUID_WAKE w + length attempts \<and>
              n_reads w' = n_reads w + length attempts \<and>
              n_connects w' = n_connects w \<and> n_disconnects w' = n_disconnects w"
  using assms
proof (induction attempts arbitrary: w)
  case Nil
  then show ?case by (simp add: return_io_def)
next
  case (Cons attempt rest)
  from Cons.prems have first:
    "write_out dev UUID_CONTROL (n_writes UUID_CONTROL w) = None"
    "rewake_swallowed (write_out dev UUID_WAKE (n_writes UUID_WAKE w))"
    "readback_no_match expect_open (read_out dev (n_reads w))"
    by force+
  from verify_cycle_no_match [OF first, of payload attempt rest]
  obtain w1 where w1:
    "verify_loop dev payload expect_open (attempt # rest) w =
       verify_loop dev payload expect_open rest w1"
    "n_writes UUID_CONTROL w1 = Suc (n_writes UUID_CONTROL w)"
    "n_writes UUID_WAKE w1 = Suc (n_writes UUID_WAKE w)"
    "n_reads w1 = Suc (n_reads w)"
    "n_connects w1 = n_connects w" "n_disconnects w1 = n_disconnects w"
    by blast
  have later: "\<forall>i<length rest.
             write_out dev UUID_CONTROL (n_writes UUID_CONTROL w1 + i) = None \<and>
             rewake_swallowed (write_out dev UUID_WAKE (n_writes UUID_WAKE w1 + i)) \<and>
             readback_no_match expect_open (read_out dev (n_reads w1 + i))"
  proof (intro allI impI)
    fix i assume "i < length rest"
    then have "Suc i < length (attempt # rest)" by simp
    with Cons.prems show "write_out dev UUID_CONTROL (n_writes UUID_CONTROL w1 + i) = None \<and>
             rewake_swallowed (write_out dev UUID_WAKE (n_writes UUID_WAKE w1 + i)) \<and>
             readback_no_match expect_open (read_out dev (n_reads w1 + i))"
      unfolding w1(2-4) by (metis add_Suc_shift)
  qed
  from Cons.IH [OF later] obtain w' where
    "verify_loop dev payload expect_open rest w1 = (Inr PyFalse, w')"
    "n_writes UUID_CONTROL w' = n_writes UUID_CONTROL w1 + length rest"
    "n_writes UUID_WAKE w' = n_writes UUID_WAKE w1 + length rest"
    "n_reads w' = n_reads w1 + length rest"
    "n_connects w' = n_connects w1" "n_disconnects w' = n_disconnects w1"
    by blast
  then show ?case using w1 by simp
qed

lemma verify_loop_matches_at:
  assumes "j < length attempts"
    and "\<forall>i<j.
             write_out dev UUID_CONTROL (n_writes UUID_CONTROL w + i) = None \<and>
             rewake_swallowed (write_out dev UUID_WAKE (n_writes UUID_WAKE w + i)) \<and>
             readback_no_match expect_open (read_out dev (n_reads w + i))"
    and "write_out dev UUID_CONTROL (n_writes UUID_CONTROL w + j) = None"
    and "rewake_swallowed (write_out dev UUID_WAKE (n_writes UUID_WAKE w + j))"
    and "read_out dev (n_reads w + j) = Inr buf"
    and "parse_status buf = Inr st"
    and "valve_open st = expect_open"
  shows "\<exists>w'. verify_loop dev payload expect_open attempts w = (Inr (Status st), w') \<and>
              n_writes UUID_CONTROL w' = n_writes UUID_CONTROL w + Suc j \<and>
              n_writes UUID_WAKE w' = n_writes UUID_WAKE w + Suc j \<and>
              n_reads w' = n_reads w + Suc j \<and>
              n_connects w' = n_connects w \<and> n_disconnects w' = n_disconnects w"
  using assms(1-5)
proof (induction attempts arbitrary: w j)
  case Nil
  then show ?case by simp
next
  case (Cons attempt rest)
  show ?case
  proof (cases j)
    case 0
    with Cons.prems verify_cycle_match [of dev w buf st expect_open payload attempt rest]
      assms(6,7)
    show ?thesis by simp
  next
    case (Suc k)
    from Cons.prems(2) Suc have first:
      "write_out dev UUID_CONTROL (n_writes UUID_CONTROL w) = None"
      "rewake_swallowed (write_out dev UUID_WAKE (n_writes UUID_WAKE w))"
      "readback_no_match expect_open (read_out dev (n_reads w))"
      by force+
    from verify_cycle_no_match [OF first, of payload attempt rest]
    obtain w1 where w1:
      "verify_loop dev payload expect_open (attempt # rest) w =
         verify_loop dev payload expect_open rest w1"
      "n_writes UUID_CONTROL w1 = Suc (n_writes UUID_CONTROL w)"
      "n_writes UUID_WAKE w1 = Suc (n_writes UUID_WAKE w)"
      "n_reads w1 = Suc (n_reads w)"
      "n_connects w1 = n_connects w" "n_disconnects w1 = n_disconnects w"
      by blast
    have k: "k < length rest" using Cons.prems(1) Suc by simp
    have earlier: "\<forall>i<k.
             write_out dev UUID_CONTROL (n_writes UUID_CONTROL w1 + i) = None \<and>
             rewake_swallowed (write_out dev UUID_WAKE (n_writes UUID_WAKE w1 + i)) \<and>
             readback_no_match expect_open (read_out dev (n_reads w1 + i))"
    proof (intro allI impI)
      fix i assume "i < k"
      then have "Suc i < j" using Suc by simp
      with Cons.prems(2) show "write_out dev UUID_CONTROL (n_writes UUID_CONTROL w1 + i) = None \<and>
             rewake_swallowed (write_out dev UUID_WAKE (n_writes UUID_WAKE w1 + i)) \<and>
             readback_no_match expect_open (read_out dev (n_reads w1 + i))"
        unfolding w1(2-4) by (metis add_Suc_shift)
    qed
    have at_k:
      "write_out dev UUID_CONTROL (n_writes UUID_CONTROL w1 + k) = None"
      "rewake_swallowed (write_out dev UUID_WAKE (n_writes UUID_WAKE w1 + k))"
      "read_out dev (n_reads w1 + k) = Inr buf"
      using Cons.prems(3-5) Suc by (simp_all add: w1(2-4))
    from Cons.IH [OF k earlier at_k] obtain w' where
      "verify_loop dev payload expect_open rest w1 = (Inr (Status st), w')"
      "n_writes UUID_CONTROL w' = n_writes UUID_CONTROL w1 + Suc k"
      "n_writes UUID_WAKE w' = n_writes UUID_WAKE w1 + Suc k"
      "n_reads w' = n_reads w1 + Suc k"
      "n_connects w' = n_connects w1" "n_disconnects w' = n_disconnects w1"
      by blast
    then show ?thesis using w1 Suc by simp
  qed
qed


lemma verified_command_enters_loop:
  assumes "write_out dev UUID_WAKE (n_writes UUID_WAKE w) = None"
    and "read_out dev (n_reads w) = Inr buf"
    and "\<not> readback_matches expect_open (Inr buf)"
  shows "\<exists>w0. verified_command dev payload expect_open w =
                 verify_loop dev payload expect_open [1 ..< COMMAND_VERIFY_ATTEMPTS + 1] w0 \<and>
              n_writes UUID_CONTROL w0 = n_writes UUID_CONTROL w \<and>
              n_writes UUID_WAKE w0 = Suc (n_writes UUID_WAKE w) \<and>
              n_reads w0 = Suc (n_reads w) \<and>
              n_connects w0 = n_connects w \<and> n_disconnects w0 = n_disconnects w"
proof -
  obtain st where st: "parse_status buf = Inr st" using parse_status_total by blast
  with assms(3) have ne: "valve_open st \<noteq> expect_open"
    by (simp add: readback_matches_def)
  let ?w0 = "w @ [EWrite UUID_WAKE WAKE_PAYLOAD, ESleep WAKE_SETTLE_DELAY, ERead UUID_STATUS]"
  have "n_reads (w @ [EWrite UUID_WAKE WAKE_PAYLOAD, ESleep WAKE_SETTLE_DELAY]) = n_reads w"
    by (simp add: n_reads_def)
  then have "read_status_raw dev (w @ [EWrite UUID_WAKE WAKE_PAYLOAD, ESleep WAKE_SETTLE_DELAY]) =
      (Inr st, ?w0)"
    using assms(2) st by (simp add: read_status_raw_ok)
  then have "verified_command dev payload expect_open w =
      verify_loop dev payload expect_open [1 ..< COMMAND_VERIFY_ATTEMPTS + 1] ?w0"
    using assms(1) ne by (simp add: verified_command_def bind_io_def wake_up_ok)
  moreover have "n_writes UUID_CONTROL ?w0 = n_writes UUID_CONTROL w"
    "n_writes UUID_WAKE ?w0 = Suc (n_writes UUID_WAKE w)"
    "n_reads ?w0 = Suc (n_reads w)"
    "n_connects ?w0 = n_connects w" "n_disconnects ?w0 = n_disconnects w"
    by (simp_all add: n_writes_def n_reads_def n_connects_def n_disconnects_def uuid_distinct)
  ultimately show ?thesis by blast
qed

lemma verified_command_unconfirmed:
  assumes "write_out dev UUID_WAKE (n_writes UUID_WAKE w) = None"
    and "read_out dev (n_reads w) = Inr buf0"
    and "\<not> readback_matches expect_open (Inr buf0)"
    and "\<forall>i<COMMAND_VERIFY_ATTEMPTS.
           write_out dev UUID_CONTROL (n_writes UUID_CONTROL w + i) = None \<and>
           rewake_swallowed (write_out dev UUID_WAKE (n_writes UUID_WAKE w + 1 + i)) \<and>
           readback_no_match expect_open (read_out dev (n_reads w + 1 + i))"
  shows "\<exists>w'. verified_command dev payload expect_open w = (Inr PyFalse, w') \<and>
           n_writes UUID_CONTROL w' = n_writes UUID_CONTROL w + COMMAND_VERIFY_ATTEMPTS \<and>
           n_reads w' = n_reads w + 1 + COMMAND_VERIFY_ATTEMPTS \<and>
           n_connects w' = n_connects w \<and> n_disconnects w' = n_disconnects w"
proof -
  from verified_command_enters_loop [OF assms(1-3), of payload]
  obtain w0 where w0:
    "verified_command dev payload expect_open w =
       verify_loop dev payload expect_open [1 ..< COMMAND_VERIFY_ATTEMPTS + 1] w0"
    "n_writes UUID_CONTROL w0 = n_writes UUID_CONTROL w"
    "n_writes UUID_WAKE w0 = Suc (n_writes UUID_WAKE w)"
    "n_reads w0 = Suc (n_reads w)"
    "n_connects w0 = n_connects w" "n_disconnects w0 = n_disconnects w"
    by blast
  have "\<forall>i<length [1 ..< COMMAND_VERIFY_ATTEMPTS + 1].
             write_out dev UUID_CONTROL (n_writes UUID_CONTROL w0 + i) = None \<and>
             rewake_swallowed (write_out dev UUID_WAKE (n_writes UUID_WAKE w0 + i)) \<and>
             readback_no_match expect_open (read_out dev (n_reads w0 + i))"
    using assms(4) by (simp add: w0(2-4))
  from verify_loop_never_matches [OF this, of payload] w0
  show ?thesis by auto
qed

lemma verified_command_confirmed_at:
  assumes "write_out dev UUID_WAKE (n_writes UUID_WAKE w) = None"
    and "read_out dev (n_reads w) = Inr buf0"
    and "\<not> readback_matches expect_open (Inr buf0)"
    and "j < COMMAND_VERIFY_ATTEMPTS"
    and "\<forall>i<j.
           write_out dev UUID_CONTROL (n_writes UUID_CONTROL w + i) = None \<and>
           rewake_swallowed (write_out dev UUID_WAKE (n_writes UUID_WAKE w + 1 + i)) \<and>
           readback_no_match expect_open (read_out dev (n_reads w + 1 + i))"
    and "write_out dev UUID_CONTROL (n_writes UUID_CONTROL w + j) = None"
    and "rewake_swallowed (write_out dev UUID_WAKE (n_writes UUID_WAKE w + 1 + j))"
    and "read_out dev (n_reads w + 1 + j) = Inr buf"
    and "parse_status buf = Inr st"
    and "valve_open st = expect_open"
  shows "\<exists>w'. verified_command dev payload expect_open w = (Inr (Status st), w') \<and>
           n_writes UUID_CONTROL w' = n_writes UUID_CONTROL w + Suc j \<and>
           n_reads w' = n_reads w + 1 + Suc j \<and>
           n_connects w' = n_connects w \<and> n_disconnects w' = n_disconnects w"
proof -
  from verified_command_enters_loop [OF assms(1-3), of payload]
  obtain w0 where w0:
    "verified_command dev payload expect_open w =
       verify_loop dev payload expect_open [1 ..< COMMAND_VERIFY_ATTEMPTS + 1] w0"
    "n_writes UUID_CONTROL w0 = n_writes UUID_CONTROL w"
    "n_writes UUID_WAKE w0 = Suc (n_writes UUID_WAKE w)"
    "n_reads w0 = Suc (n_reads w)"
    "n_connects w0 = n_connects w" "n_disconnects w0 = n_disconnects w"
    by blast
  have j: "j < length [1 ..< COMMAND_VERIFY_ATTEMPTS + 1]" using assms(4) by simp
  have earlier: "\<forall>i<j.
             write_out dev UUID_CONTROL (n_writes UUID_CONTROL w0 + i) = None \<and>
             rewake_swallowed (write_out dev UUID_WAKE (n_writes UUID_WAKE w0 + i)) \<and>
             readback_no_match expect_open (read_out dev (n_reads w0 + i))"
    using assms(5) by (simp add: w0(2-4))
  have at_j: "write_out dev UUID_CONTROL (n_writes UUID_CONTROL w0 + j) = None"
    "rewake_swallowed (write_out dev UUID_WAKE (n_writes UUID_WAKE w0 + j))"
    "read_out dev (n_reads w0 + j) = Inr buf"
    using assms(6-8) by (simp_all add: w0(2-4))
  from verify_loop_matches_at [OF j earlier at_j assms(9,10), of payload] w0
  show ?thesis by auto
qed

subsection \<open>Verified command protocol\<close>

lemma parse_sample_closed:
  "parse_status [0, 0, 0, 0, 0] =
     Inr \<lparr>valve_open = False, manual_open = False, hours_remaining = 0,
          minutes_remaining = 0, seconds_remaining = 0, raw = [0, 0, 0, 0, 0],
          battery_level = None\<rparr>"
  by (simp add: parse_status_long)

lemma parse_sample_open:
  "parse_status [1, 0, 0, 20, 0] =
     Inr \<lparr>valve_open = True, manual_open = False, hours_remaining = 0,
          minutes_remaining = 20, seconds_remaining = 0, raw = [1, 0, 0, 20, 0],
          battery_level = None\<rparr>"
  by (simp add: parse_status_long)

lemmas sample_eval =
  COMMAND_VERIFY_ATTEMPTS_def numeral_3_eq_3 numeral_2_eq_2 All_less_Suc scripted_def nth_or_def
  uuid_distinct rewake_swallowed_def readback_no_match_def readback_matches_def
  parse_sample_closed parse_sample_open n_writes_def n_reads_def n_connects_def
  n_disconnects_def

text \<open>
  Claim C4. \<open>COMMAND_VERIFY_ATTEMPTS\<close> is 3. Take a run of the verified command protocol
  that reaches the verify loop (the wake write succeeds and the pre-command read gives a
  status that is not the expected one) and in which the control writes succeed. If no
  readback matches \<open>expect_open\<close> (each one gives a non-matching status or fails with an
  exception that the loop skips), the protocol returns the unconfirmed signal, the value
  \<open>False\<close>, without raising, after exactly \<open>COMMAND_VERIFY_ATTEMPTS\<close> control writes and
  as many readbacks (one more read counting the pre-command read). If the readback of
  cycle \<open>j + 1\<close> is the first to match, the protocol returns that status as confirmed
  after exactly \<open>j + 1\<close> control writes and readbacks.
\<close>

theorem verify_bound:
  "COMMAND_VERIFY_ATTEMPTS = 3 \<and>
   (write_out dev UUID_WAKE (n_writes UUID_WAKE w) = None \<and>
    read_out dev (n_reads w) = Inr buf0 \<and>
    \<not> readback_matches expect_open (Inr buf0) \<and>
    (\<forall>i<COMMAND_VERIFY_ATTEMPTS.
       write_out dev UUID_CONTROL (n_writes UUID_CONTROL w + i) = None \<and>
       rewake_swallowed (write_out dev UUID_WAKE (n_writes UUID_WAKE w + 1 + i)) \<and>
       readback_no_match expect_open (read_out dev (n_reads w + 1 + i))) \<longrightarrow>
      fst (verified_command dev payload expect_open w) = Inr PyFalse \<and>
      n_writes UUID_CONTROL (snd (verified_command dev payload expect_open w)) =
        n_writes UUID_CONTROL w + COMMAND_VERIFY_ATTEMPTS \<and>
      n_reads (snd (verified_command dev payload expect_open w)) =
        n_reads w + 1 + COMMAND_VERIFY_ATTEMPTS) \<and>
   (write_out dev UUID_WAKE (n_writes UUID_WAKE w) = None \<and>
    read_out dev (n_reads w) = Inr buf0 \<and>
    \<not> readback_matches expect_open (Inr buf0) \<and>
    j < COMMAND_VERIFY_ATTEMPTS \<and>
    (\<forall>i<j.
       write_out dev UUID_CONTROL (n_writes UUID_CONTROL w + i) = None \<and>
       rewake_swallowed (write_out dev UUID_WAKE (n_writes UUID_WAKE w + 1 + i)) \<and>
       readback_no_match expect_open (read_out dev (n_reads w + 1 + i))) \<and>
    write_out dev UUID_CONTROL (n_writes UUID_CONTROL w + j) = None \<and>
    rewake_swallowed (write_out dev UUID_WAKE (n_writes UUID_WAKE w + 1 + j)) \<and>
    read_out dev (n_reads w + 1 + j) = Inr buf \<and>
    parse_status buf = Inr st \<and> valve_open st = expect_open \<longrightarrow>
      fst (verified_command dev payload expect_open w) = Inr (Status st) \<and>
      n_writes UUID_CONTROL (snd (verified_command dev payload expect_open w)) =
        n_writes UUID_CONTROL w + Suc j \<and>
      n_reads (snd (verified_command dev payload expect_open w)) = n_reads w + 1 + Suc j)"
proof (intro conjI impI)
  show "COMMAND_VERIFY_ATTEMPTS = 3" by (simp add: COMMAND_VERIFY_ATTEMPTS_def)
next
  assume h: "write_out dev UUID_WAKE (n_writes UUID_WAKE w) = None \<and>
    read_out dev (n_reads w) = Inr buf0 \<and>
    \<not> readback_matches expect_open (Inr buf0) \<and>
    (\<forall>i<COMMAND_VERIFY_ATTEMPTS.
       write_out dev UUID_CONTROL (n_writes UUID_CONTROL w + i) = None \<and>
       rewake_swallowed (write_out dev UUID_WAKE (n_writes UUID_WAKE w + 1 + i)) \<and>
       readback_no_match expect_open (read_out dev (n_reads w + 1 + i)))"
  then have a: "write_out dev UUID_WAKE (n_writes UUID_WAKE w) = None"
    and b: "read_out dev (n_reads w) = Inr buf0"
    and c: "\<not> readback_matches expect_open (Inr buf0)"
    and d: "\<forall>i<COMMAND_VERIFY_ATTEMPTS.
       write_out dev UUID_CONTROL (n_writes UUID_CONTROL w + i) = None \<and>
       rewake_swallowed (write_out dev UUID_WAKE (n_writes UUID_WAKE w + 1 + i)) \<and>
       readback_no_match expect_open (read_out dev (n_reads w + 1 + i))"
    by blast+
  from verified_command_unconfirmed [OF a b c d, of payload]
  obtain w' where w': "verified_command dev payload expect_open w = (Inr PyFalse, w')"
    "n_writes UUID_CONTROL w' = n_writes UUID_CONTROL w + COMMAND_VERIFY_ATTEMPTS"
    "n_reads w' = n_reads w + 1 + COMMAND_VERIFY_ATTEMPTS"
    by blast
  show "fst (verified_command dev payload expect_open w) = Inr PyFalse"
    by (simp add: w')
  show "n_writes UUID_CONTROL (snd (verified_command dev payload expect_open w)) =
        n_writes UUID_CONTROL w + COMMAND_VERIFY_ATTEMPTS"
    by (simp add: w')
  show "n_reads (snd (verified_command dev payload expect_open w)) =
        n_reads w + 1 + COMMAND_VERIFY_ATTEMPTS"
    by (simp add: w')
next
  assume h: "write_out dev UUID_WAKE (n_writes UUID_WAKE w) = None \<and>
    read_out dev (n_reads w) = Inr buf0 \<and>
    \<not> readback_matches expect_open (Inr buf0) \<and>
    j < COMMAND_VERIFY_ATTEMPTS \<and>
    (\<forall>i<j.
       write_out dev UUID_CONTROL (n_writes UUID_CONTROL w + i) = None \<and>
       rewake_swallowed (write_out dev UUID_WAKE (n_writes UUID_WAKE w + 1 + i)) \<and>
       readback_no_match expect_open (read_out dev (n_reads w + 1 + i))) \<and>
    write_out dev UUID_CONTROL (n_writes UUID_CONTROL w + j) = None \<and>
    rewake_swallowed (write_out dev UUID_WAKE (n_writes UUID_WAKE w + 1 + j)) \<and>
    read_out dev (n_reads w + 1 + j) = Inr buf \<and>
    parse_status buf = Inr st \<and> valve_open st = expect_open"
  then have a: "write_out dev UUID_WAKE (n_writes UUID_WAKE w) = None"
    and b: "read_out dev (n_reads w) = Inr buf0"
    and c: "\<not> readback_matches expect_open (Inr buf0)"
    and j: "j < COMMAND_VERIFY_ATTEMPTS"
    and d: "\<forall>i<j.
       write_out dev UUID_CONTROL (n_writes UUID_CONTROL w + i) = None \<and>
       rewake_swallowed (write_out dev UUID_WAKE (n_writes UUID_WAKE w + 1 + i)) \<and>
       readback_no_match expect_open (read_out dev (n_reads w + 1 + i))"
    and e: "write_out dev UUID_CONTROL (n_writes UUID_CONTROL w + j) = None"
      "rewake_swallowed (write_out dev UUID_WAKE (n_writes UUID_WAKE w + 1 + j))"
      "read_out dev (n_reads w + 1 + j) = Inr buf"
      "parse_status buf = Inr st" "valve_open st = expect_open"
    by blast+
  from verified_command_confirmed_at [OF a b c j d e, of payload]
  obtain w' where w': "verified_command dev payload expect_open w = (Inr (Status st), w')"
    "n_writes UUID_CONTROL w' = n_writes UUID_CONTROL w + Suc j"
    "n_reads w' = n_reads w + 1 + Suc j"
    by blast
  show "fst (verified_command dev payload expect_open w) = Inr (Status st)"
    by (simp add: w')
  show "n_writes UUID_CONTROL (snd (verified_command dev payload expect_open w)) =
        n_writes UUID_CONTROL w + Suc j"
    by (simp add: w')
  show "n_reads (snd (verified_command dev payload expect_open w)) = n_reads w + 1 + Suc j"
    by (simp add: w')
qed

theorem verify_bound_witness:
  "fst (verified_command
          (scripted [] [] [None, Some (BleakError ''asleep'')] []
             [Inr [0, 0, 0, 0, 0], Inr [0, 0, 0, 0, 0], Inl TimeoutError] [0, 0, 0, 0, 0])
          CMD_OPEN_VALVE True []) = Inr PyFalse \<and>
   n_writes UUID_CONTROL (snd (verified_command
          (scripted [] [] [None, Some (BleakError ''asleep'')] []
             [Inr [0, 0, 0, 0, 0], Inr [0, 0, 0, 0, 0], Inl TimeoutError] [0, 0, 0, 0, 0])
          CMD_OPEN_VALVE True [])) = 3 \<and>
   n_reads (snd (verified_command
          (scripted [] [] [None, Some (BleakError ''asleep'')] []
             [Inr [0, 0, 0, 0, 0], Inr [0, 0, 0, 0, 0], Inl TimeoutError] [0, 0, 0, 0, 0])
          CMD_OPEN_VALVE True [])) = 4 \<and>
   fst (verified_command
          (scripted [] [] [] [] [Inr [0, 0, 0, 0, 0], Inl TimeoutError] [1, 0, 0, 20, 0])
          CMD_OPEN_VALVE True []) =
     Inr (Status \<lparr>valve_open = True, manual_open = False, hours_remaining = 0,
                  minutes_remaining = 20, seconds_remaining = 0, raw = [1, 0, 0, 20, 0],
                  battery_level = None\<rparr>) \<and>
   n_writes UUID_CONTROL (snd (verified_command
          (scripted [] [] [] [] [Inr [0, 0, 0, 0, 0], Inl TimeoutError] [1, 0, 0, 20, 0])
          CMD_OPEN_VALVE True [])) = 2 \<and>
   n_reads (snd (verified_command
          (scripted [] [] [] [] [Inr [0, 0, 0, 0, 0], Inl TimeoutError] [1, 0, 0, 20, 0])
          CMD_OPEN_VALVE True [])) = 3"
  using verify_bound [of "scripted [] [] [None, Some (BleakError ''asleep'')] []
             [Inr [0, 0, 0, 0, 0], Inr [0, 0, 0, 0, 0], Inl TimeoutError] [0, 0, 0, 0, 0]"
           "[]" "[0, 0, 0, 0, 0]" True CMD_OPEN_VALVE, THEN conjunct2, THEN conjunct1]
    verify_bound [of "scripted [] [] [] [] [Inr [0, 0, 0, 0, 0], Inl TimeoutError]
             [1, 0, 0, 20, 0]"
           "[]" "[0, 0, 0, 0, 0]" True CMD_OPEN_VALVE 1 "[1, 0, 0, 20, 0]"
           "\<lparr>valve_open = True, manual_open = False, hours_remaining = 0,
                  minutes_remaining = 20, seconds_remaining = 0, raw = [1, 0, 0, 20, 0],
                  battery_level = None\<rparr>", THEN conjunct2, THEN conjunct2]
  by (simp add: sample_eval)









subsection \<open>Retry bound of the transport executor\<close>


lemma slept_connect_event [simp]: "slept (connect_event b) = []"
  by (simp add: connect_event_def)







subsection \<open>The unconfirmed result of a command\<close>

text \<open>
  Claim C1, on the code. A device that keeps reporting the valve closed never confirms
  an open command, and one that keeps reporting it open never confirms a close command.
  After the three verify cycles \<open>open_valve\<close> and \<open>close_valve\<close> return without raising,
  and the value they return is Python's \<open>False\<close>, not \<open>None\<close>.
\<close>

theorem unconfirmed_returns_False:
  "fst (open_valve (scripted [] [] [] [] [] [0, 0, 0, 0, 0]) sample_device 0 20 0 []) =
     Inr PyFalse \<and>
   fst (open_valve (scripted [] [] [] [] [] [0, 0, 0, 0, 0]) sample_device 0 20 0 []) \<noteq>
     Inr PyNone \<and>
   fst (close_valve (scripted [] [] [] [] [] [1, 0, 0, 20, 0]) sample_device []) =
     Inr PyFalse \<and>
   fst (close_valve (scripted [] [] [] [] [] [1, 0, 0, 20, 0]) sample_device []) \<noteq>
     Inr PyNone"
proof -
  have "fst (open_valve (scripted [] [] [] [] [] [0, 0, 0, 0, 0]) sample_device 0 20 0 []) =
     Inr PyFalse"
    by code_simp
  moreover have "fst (close_valve (scripted [] [] [] [] [] [1, 0, 0, 20, 0]) sample_device []) =
     Inr PyFalse"
    by code_simp
  ultimately show ?thesis by simp
qed

subsection \<open>Coordinator\<close>

text \<open>
  Claim C10. \<open>set_polling(True)\<close> sets the failure counter to 0, so that the device is
  reported reachable at once, and sets the poll interval back to the base interval.
  \<open>set_polling(False)\<close> leaves the failure counter as it is, sets the interval to
  24 hours and sets the phase to Idle.
\<close>

theorem set_polling_effects:
  "polling_enabled (set_polling True c) \<and>
   consecutive_failures (set_polling True c) = 0 \<and>
   reachable (set_polling True c) \<and>
   update_interval (set_polling True c) = timedelta_seconds (base_interval c) \<and>
   \<not> polling_enabled (set_polling False c) \<and>
   consecutive_failures (set_polling False c) = consecutive_failures c \<and>
   update_interval (set_polling False c) = 24 * 3600 \<and>
   operation_state (set_polling False c) = IDLE"
  by (simp add: set_polling_def reachable_def MAX_CONSECUTIVE_FAILURES_def
        set_operation_state_def timedelta_hours_def Let_def)

lemma poll_failure:
  assumes "polling_enabled c" and "get_status dev (device c) w = (Inl err, w')"
  shows "async_update_data dev now c w =
     ((case last_known_status c of Some s \<Rightarrow> Inr s | None \<Rightarrow> Inl (UpdateFailed err)),
      c\<lparr>consecutive_failures := consecutive_failures c + 1, operation_state := IDLE,
        phase_log := phase_log c @ [SCANNING, IDLE]\<rparr>, w')"
  using assms
  by (simp add: async_update_data_def set_operation_state_def Let_def split: option.splits)

lemma poll_success:
  assumes "polling_enabled c" and "get_status dev (device c) w = (Inr st, w')"
  shows "async_update_data dev now c w =
     (Inr st,
      c\<lparr>consecutive_failures := 0, last_successful_poll := Some now,
        last_known_status := Some st, operation_state := IDLE,
        phase_log := phase_log c @ [SCANNING, IDLE]\<rparr>, w')"
  using assms
  by (simp add: async_update_data_def set_operation_state_def Let_def)

lemma poll_disabled:
  assumes "\<not> polling_enabled c"
  shows "operation_state (fst (snd (async_update_data dev now c w))) = operation_state c"
    and "phase_log (fst (snd (async_update_data dev now c w))) = phase_log c"
  using assms
  by (simp_all add: async_update_data_def Let_def split: option.splits)

lemma out_of_range_get_status:
  "get_status out_of_range self w =
     (Inl (ConnectionError (address self) MAX_RETRIES (Some TimeoutError)),
      w @ [connect_event (ble_device self), ESleep 2,
           connect_event (ble_device self), ESleep 4,
           connect_event (ble_device self)])"
  by (simp add: get_status_def execute_def MAX_RETRIES_def upt_rec out_of_range_def
        bind_io_def connect_def raise_io_def sleep_def return_io_def)

lemma sample_coordinator_simps:
  "device sample_coordinator = sample_device"
  "consecutive_failures sample_coordinator = 0"
  "last_known_status sample_coordinator = None"
  "polling_enabled sample_coordinator = False"
  "operation_state sample_coordinator = IDLE"
  "phase_log sample_coordinator = []"
  "published sample_coordinator = []"
  "current_irrigation_start sample_coordinator = None"
  "current_irrigation_duration sample_coordinator = 0"
  by (simp_all add: sample_coordinator_def init_coordinator_def Let_def)

lemma failing_poll_cycles:
  assumes "\<forall>w. \<exists>err w'. get_status dev (device c) w = (Inl err, w')"
    and "polling_enabled c"
  shows "consecutive_failures (fst (poll_cycles dev ticks c w)) =
           consecutive_failures c + int (length ticks)"
  using assms
proof (induction ticks arbitrary: c w)
  case Nil
  then show ?case by simp
next
  case (Cons now ticks)
  from Cons.prems(1) obtain err w' where g: "get_status dev (device c) w = (Inl err, w')"
    by blast
  let ?c' = "c\<lparr>consecutive_failures := consecutive_failures c + 1, operation_state := IDLE,
        phase_log := phase_log c @ [SCANNING, IDLE]\<rparr>"
  have step: "async_update_data dev now c w =
     ((case last_known_status c of Some s \<Rightarrow> Inr s | None \<Rightarrow> Inl (UpdateFailed err)), ?c', w')"
    using poll_failure [OF Cons.prems(2) g] .
  have "consecutive_failures (fst (poll_cycles dev ticks ?c' w')) =
          consecutive_failures ?c' + int (length ticks)"
    using Cons.prems by (intro Cons.IH) simp_all
  then show ?case by (simp add: step)
qed

text \<open>
  Claim C7. In a poll cycle with polling enabled, a successful status read sets
  \<open>consecutive_failures\<close> to 0 and a failed one adds exactly 1 to it. \<open>reachable\<close> holds
  exactly when \<open>consecutive_failures\<close> is below \<open>MAX_CONSECUTIVE_FAILURES\<close>, which is 5.
  Starting from a counter of 0, a sequence of poll cycles that all fail leaves the
  counter at the number of cycles: after \<open>MAX_CONSECUTIVE_FAILURES - 1\<close> of them the
  device is still reachable, after \<open>MAX_CONSECUTIVE_FAILURES\<close> it is not.
\<close>

theorem failure_counter_and_reachable:
  "(polling_enabled c \<and> get_status dev (device c) w = (Inr st, w') \<longrightarrow>
      consecutive_failures (fst (snd (async_update_data dev now c w))) = 0) \<and>
   (polling_enabled c \<and> get_status dev (device c) w = (Inl err, w') \<longrightarrow>
      consecutive_failures (fst (snd (async_update_data dev now c w))) =
        consecutive_failures c + 1) \<and>
   reachable c = (consecutive_failures c < MAX_CONSECUTIVE_FAILURES) \<and>
   MAX_CONSECUTIVE_FAILURES = 5 \<and>
   (polling_enabled c \<and> consecutive_failures c = 0 \<and>
    (\<forall>v. \<exists>e v'. get_status dev (device c) v = (Inl e, v')) \<longrightarrow>
      consecutive_failures (fst (poll_cycles dev ticks c w)) = int (length ticks) \<and>
      (int (length ticks) = MAX_CONSECUTIVE_FAILURES - 1 \<longrightarrow>
         reachable (fst (poll_cycles dev ticks c w))) \<and>
      (int (length ticks) = MAX_CONSECUTIVE_FAILURES \<longrightarrow>
         \<not> reachable (fst (poll_cycles dev ticks c w))))"
proof -
  have a: "polling_enabled c \<and> get_status dev (device c) w = (Inr st, w') \<longrightarrow>
      consecutive_failures (fst (snd (async_update_data dev now c w))) = 0"
    by (simp add: poll_success)
  have b: "polling_enabled c \<and> get_status dev (device c) w = (Inl err, w') \<longrightarrow>
      consecutive_failures (fst (snd (async_update_data dev now c w))) =
        consecutive_failures c + 1"
    by (simp add: poll_failure)
  have d: "polling_enabled c \<and> consecutive_failures c = 0 \<and>
    (\<forall>v. \<exists>e v'. get_status dev (device c) v = (Inl e, v')) \<longrightarrow>
      consecutive_failures (fst (poll_cycles dev ticks c w)) = int (length ticks) \<and>
      (int (length ticks) = MAX_CONSECUTIVE_FAILURES - 1 \<longrightarrow>
         reachable (fst (poll_cycles dev ticks c w))) \<and>
      (int (length ticks) = MAX_CONSECUTIVE_FAILURES \<longrightarrow>
         \<not> reachable (fst (poll_cycles dev ticks c w)))"
    using failing_poll_cycles [of dev c ticks w] by (simp add: reachable_def)
  show ?thesis using a b d by (simp add: reachable_def MAX_CONSECUTIVE_FAILURES_def)
qed

lemma sample_get_status_open:
  "get_status (scripted [] [] [] [] [] [1, 0, 0, 20, 0]) sample_device w =
     (Inr \<lparr>valve_open = True, manual_open = False, hours_remaining = 0,
          minutes_remaining = 20, seconds_remaining = 0, raw = [1, 0, 0, 20, 0],
          battery_level = None\<rparr>,
      w @ [EClientConnect, EWrite UUID_WAKE WAKE_PAYLOAD, ESleep WAKE_SETTLE_DELAY,
           ERead UUID_STATUS, EDisconnect])"
proof -
  let ?dev = "scripted [] [] [] [] [] [1, 0, 0, 20, 0]"
  let ?w0 = "w @ [connect_event (ble_device sample_device)]"
  have "write_out ?dev UUID_WAKE (n_writes UUID_WAKE ?w0) = None"
    by (simp add: scripted_def nth_or_def)
  then have wk: "wake_up ?dev ?w0 =
      (Inr (), ?w0 @ [EWrite UUID_WAKE WAKE_PAYLOAD, ESleep WAKE_SETTLE_DELAY])"
    by (rule wake_up_ok)
  have "read_out ?dev (n_reads (?w0 @ [EWrite UUID_WAKE WAKE_PAYLOAD, ESleep WAKE_SETTLE_DELAY]))
          = Inr [1, 0, 0, 20, 0]"
    by (simp add: scripted_def nth_or_def)
  from read_status_raw_ok [OF this] wk
  have cb: "bind_io (wake_up ?dev) (\<lambda>_. read_status_raw ?dev) ?w0 =
     (Inr \<lparr>valve_open = True, manual_open = False, hours_remaining = 0,
          minutes_remaining = 20, seconds_remaining = 0, raw = [1, 0, 0, 20, 0],
          battery_level = None\<rparr>,
      ?w0 @ [EWrite UUID_WAKE WAKE_PAYLOAD, ESleep WAKE_SETTLE_DELAY, ERead UUID_STATUS])"
    by (simp add: bind_io_def parse_sample_open)
  have c: "connect_out ?dev (n_connects w) = Inr True"
    by (simp add: scripted_def nth_or_def)
  have d: "disconnect_out ?dev (n_disconnects
      (?w0 @ [EWrite UUID_WAKE WAKE_PAYLOAD, ESleep WAKE_SETTLE_DELAY, ERead UUID_STATUS])) = None"
    by (simp add: scripted_def nth_or_def)
  have attempts: "[1 ..< MAX_RETRIES + 1] = 1 # [2, 3]"
    by (simp add: MAX_RETRIES_def upt_rec)
  have "get_status ?dev sample_device w =
      (Inr \<lparr>valve_open = True, manual_open = False, hours_remaining = 0,
          minutes_remaining = 20, seconds_remaining = 0, raw = [1, 0, 0, 20, 0],
          battery_level = None\<rparr>,
      (?w0 @ [EWrite UUID_WAKE WAKE_PAYLOAD, ESleep WAKE_SETTLE_DELAY, ERead UUID_STATUS])
        @ [EDisconnect])"
    unfolding get_status_def execute_def attempts
    using c cb d by (rule execute_loop_returns)
  then show ?thesis by (simp add: sample_device_def connect_event_def)
qed

theorem failure_counter_and_reachable_witness:
  "consecutive_failures (fst (snd (async_update_data
      (scripted [] [] [] [] [] [1, 0, 0, 20, 0]) 60
      (sample_coordinator\<lparr>polling_enabled := True, consecutive_failures := 4\<rparr>) []))) = 0 \<and>
   consecutive_failures (fst (snd (async_update_data out_of_range 60
      (sample_coordinator\<lparr>polling_enabled := True, consecutive_failures := 4\<rparr>) []))) = 5 \<and>
   reachable (fst (poll_cycles out_of_range [60, 120, 180, 240]
      (sample_coordinator\<lparr>polling_enabled := True\<rparr>) [])) \<and>
   \<not> reachable (fst (poll_cycles out_of_range [60, 120, 180, 240, 300]
      (sample_coordinator\<lparr>polling_enabled := True\<rparr>) []))"
proof -
  let ?c4 = "sample_coordinator\<lparr>polling_enabled := True, consecutive_failures := 4\<rparr>"
  let ?c0 = "sample_coordinator\<lparr>polling_enabled := True\<rparr>"
  have g1: "get_status (scripted [] [] [] [] [] [1, 0, 0, 20, 0]) (device ?c4) [] =
     (Inr \<lparr>valve_open = True, manual_open = False, hours_remaining = 0,
          minutes_remaining = 20, seconds_remaining = 0, raw = [1, 0, 0, 20, 0],
          battery_level = None\<rparr>,
      [EClientConnect, EWrite UUID_WAKE WAKE_PAYLOAD, ESleep WAKE_SETTLE_DELAY,
           ERead UUID_STATUS, EDisconnect])"
    by (simp add: sample_get_status_open sample_coordinator_simps)
  have g2: "get_status out_of_range (device ?c4) [] =
     (Inl (ConnectionError (address (device ?c4)) MAX_RETRIES (Some TimeoutError)),
      [] @ [connect_event (ble_device (device ?c4)), ESleep 2,
           connect_event (ble_device (device ?c4)), ESleep 4,
           connect_event (ble_device (device ?c4))])"
    by (rule out_of_range_get_status)
  have g3: "\<forall>v. \<exists>e v'. get_status out_of_range (device ?c0) v = (Inl e, v')"
    by (simp add: out_of_range_get_status)
  have s1: "consecutive_failures (fst (snd (async_update_data
      (scripted [] [] [] [] [] [1, 0, 0, 20, 0]) 60 ?c4 []))) = 0"
    using failure_counter_and_reachable [where c = ?c4 and w = "[]"
        and dev = "scripted [] [] [] [] [] [1, 0, 0, 20, 0]" and now = 60,
        THEN conjunct1, THEN mp, OF conjI, OF _ g1]
    by simp
  have s2: "consecutive_failures (fst (snd (async_update_data out_of_range 60 ?c4 []))) = 5"
    using failure_counter_and_reachable [where c = ?c4 and w = "[]"
        and dev = out_of_range and now = 60,
        THEN conjunct2, THEN conjunct1, THEN mp, OF conjI, OF _ g2]
    by simp
  have s3: "reachable (fst (poll_cycles out_of_range [60, 120, 180, 240] ?c0 []))"
    using failure_counter_and_reachable [where c = ?c0 and w = "[]"
        and dev = out_of_range and ticks = "[60, 120, 180, 240]",
        THEN conjunct2, THEN conjunct2, THEN conjunct2, THEN conjunct2] g3
    by (simp add: sample_coordinator_simps MAX_CONSECUTIVE_FAILURES_def)
  have s4: "\<not> reachable (fst (poll_cycles out_of_range [60, 120, 180, 240, 300] ?c0 []))"
    using failure_counter_and_reachable [where c = ?c0 and w = "[]"
        and dev = out_of_range and ticks = "[60, 120, 180, 240, 300]",
        THEN conjunct2, THEN conjunct2, THEN conjunct2, THEN conjunct2] g3
    by (simp add: sample_coordinator_simps MAX_CONSECUTIVE_FAILURES_def)
  show ?thesis using s1 s2 s3 s4 by simp
qed

text \<open>
  Claim C8. In a poll cycle with polling enabled whose status read fails, the
  coordinator adds 1 to the failure counter, sets the phase to Idle and leaves the
  cached status as it is; it returns the cached status when there is one, and raises
  UpdateFailed only when there is none.
\<close>

theorem poll_failure_fallback:
  assumes "polling_enabled c" and "get_status dev (device c) w = (Inl err, w')"
  shows "(case async_update_data dev now c w of (r, c', w'') \<Rightarrow>
           consecutive_failures c' = consecutive_failures c + 1 \<and>
           operation_state c' = IDLE \<and>
           last_known_status c' = last_known_status c \<and>
           (case last_known_status c of
              Some cached \<Rightarrow> r = Inr cached
            | None \<Rightarrow> r = Inl (UpdateFailed err)))"
  using assms by (simp add: poll_failure split: option.splits)

theorem poll_failure_fallback_witness:
  "polling_enabled (sample_coordinator\<lparr>polling_enabled := True\<rparr>) \<and>
   fst (get_status out_of_range sample_device []) =
     Inl (ConnectionError ''AA:BB:CC:DD:EE:FF'' 3 (Some TimeoutError)) \<and>
   fst (async_update_data out_of_range 60 (sample_coordinator\<lparr>polling_enabled := True\<rparr>) []) =
     Inl (UpdateFailed (ConnectionError ''AA:BB:CC:DD:EE:FF'' 3 (Some TimeoutError))) \<and>
   consecutive_failures
     (fst (snd (async_update_data out_of_range 60
                  (sample_coordinator\<lparr>polling_enabled := True\<rparr>) []))) = 1 \<and>
   last_known_status
     (fst (snd (async_update_data out_of_range 60
                  (sample_coordinator\<lparr>polling_enabled := True\<rparr>) []))) = None \<and>
   fst (async_update_data out_of_range 60
          (sample_coordinator\<lparr>polling_enabled := True,
             last_known_status := Some (closed_status [] None)\<rparr>) []) =
     Inr (closed_status [] None)"
proof -
  have g: "get_status out_of_range
             (device (sample_coordinator\<lparr>polling_enabled := True\<rparr>)) [] =
           (Inl (ConnectionError ''AA:BB:CC:DD:EE:FF'' 3 (Some TimeoutError)),
            [EClientConnect, ESleep 2, EClientConnect, ESleep 4, EClientConnect])"
    by (simp add: out_of_range_get_status sample_coordinator_simps sample_device_def
          MAX_RETRIES_def connect_event_def)
  have g': "get_status out_of_range
             (device (sample_coordinator\<lparr>polling_enabled := True,
                        last_known_status := Some (closed_status [] None)\<rparr>)) [] =
           (Inl (ConnectionError ''AA:BB:CC:DD:EE:FF'' 3 (Some TimeoutError)),
            [EClientConnect, ESleep 2, EClientConnect, ESleep 4, EClientConnect])"
    by (simp add: out_of_range_get_status sample_coordinator_simps sample_device_def
          MAX_RETRIES_def connect_event_def)
  show ?thesis
    using poll_failure_fallback [OF _ g, of 60] poll_failure_fallback [OF _ g', of 60] g
    by (simp add: sample_coordinator_simps split: prod.splits)
qed

text \<open>
  Claim C9. When the countdown-expiry notification arrives while an irrigation record
  is in flight, the coordinator moves the in-flight record to the last record (start and
  duration), clears the in-flight start, caches and publishes a status that is closed
  and zeroed and whose raw bytes and battery level are those of the previously cached
  status (empty and absent when nothing was cached), and turns polling off.
\<close>

theorem irrigation_ended_finalizes:
  assumes "current_irrigation_start c = Some t"
  shows "(let c' = async_irrigation_ended c;
              st = \<lparr>valve_open = False, manual_open = False, hours_remaining = 0,
                    minutes_remaining = 0, seconds_remaining = 0,
                    raw = (case last_known_status c of Some prev \<Rightarrow> raw prev | None \<Rightarrow> []),
                    battery_level = (case last_known_status c of
                                       Some prev \<Rightarrow> battery_level prev | None \<Rightarrow> None)\<rparr>
          in last_irrigation_start c' = Some t \<and>
             last_irrigation_duration_min c' = Some (current_irrigation_duration c) \<and>
             current_irrigation_start c' = None \<and>
             last_known_status c' = Some st \<and>
             data c' = Some st \<and>
             published c' = published c @ [st] \<and>
             \<not> polling_enabled c')"
  using assms
  by (simp add: async_irrigation_ended_def record_irrigation_end_def closed_status_def
        carried_raw_def carried_battery_def async_set_updated_data_def set_polling_def
        set_operation_state_def Let_def)

theorem irrigation_ended_finalizes_witness:
  "current_irrigation_start watering_coordinator = Some 1000 \<and>
   last_irrigation_start (async_irrigation_ended watering_coordinator) = Some 1000 \<and>
   last_irrigation_duration_min (async_irrigation_ended watering_coordinator) = Some 20 \<and>
   current_irrigation_start (async_irrigation_ended watering_coordinator) = None \<and>
   last_known_status (async_irrigation_ended watering_coordinator) =
     Some \<lparr>valve_open = False, manual_open = False, hours_remaining = 0,
           minutes_remaining = 0, seconds_remaining = 0, raw = [1, 1, 0, 20, 0, 87],
           battery_level = Some 87\<rparr> \<and>
   published (async_irrigation_ended watering_coordinator) =
     [\<lparr>valve_open = False, manual_open = False, hours_remaining = 0,
       minutes_remaining = 0, seconds_remaining = 0, raw = [1, 1, 0, 20, 0, 87],
       battery_level = Some 87\<rparr>] \<and>
   \<not> polling_enabled (async_irrigation_ended watering_coordinator)"
proof -
  have h: "current_irrigation_start watering_coordinator = Some 1000"
    by (simp add: watering_coordinator_def)
  show ?thesis
    using irrigation_ended_finalizes [OF h] h
    by (simp add: Let_def watering_coordinator_def sample_coordinator_simps)
qed

lemma command_phases:
  "phase_log (fst (snd (async_open_valve dev now hours minutes seconds c w))) =
     phase_log c @ [CONNECTING, OPENING,
       (case fst (async_open_valve dev now hours minutes seconds c w) of
          Inr _ \<Rightarrow> CONFIRMED | Inl _ \<Rightarrow> ERROR)]"
  "operation_state (fst (snd (async_open_valve dev now hours minutes seconds c w))) =
     (case fst (async_open_valve dev now hours minutes seconds c w) of
        Inr _ \<Rightarrow> CONFIRMED | Inl _ \<Rightarrow> ERROR)"
  "phase_log (fst (snd (async_close_valve dev c w))) =
     phase_log c @ [CONNECTING, CLOSING,
       (case fst (async_close_valve dev c w) of Inr _ \<Rightarrow> CONFIRMED | Inl _ \<Rightarrow> ERROR)]"
  "operation_state (fst (snd (async_close_valve dev c w))) =
     (case fst (async_close_valve dev c w) of Inr _ \<Rightarrow> CONFIRMED | Inl _ \<Rightarrow> ERROR)"
  by (simp_all add: async_open_valve_def async_close_valve_def set_operation_state_def
        record_irrigation_start_def record_irrigation_end_def async_set_updated_data_def
        Let_def split: prod.splits sum.splits option.splits)


lemma poll_enabled_phases:
  assumes "polling_enabled c"
  shows "operation_state (fst (snd (async_update_data dev now c w))) = IDLE"
    and "phase_log (fst (snd (async_update_data dev now c w))) =
           phase_log c @ [SCANNING, IDLE]"
proof -
  obtain r w' where g: "get_status dev (device c) w = (r, w')"
    by (cases "get_status dev (device c) w")
  show "operation_state (fst (snd (async_update_data dev now c w))) = IDLE"
    using assms g by (cases r) (simp_all add: poll_failure poll_success)
  show "phase_log (fst (snd (async_update_data dev now c w))) =
           phase_log c @ [SCANNING, IDLE]"
    using assms g by (cases r) (simp_all add: poll_failure poll_success)
qed

text \<open>
  Claim C2 as stated does not hold: \<open>open_valve(0, 20, 0)\<close> on a device that reports
  closed at the pre-command read and open at the first readback returns normally, and
  the phase at the end of the operation is Confirmed, neither Idle nor Error.
\<close>

theorem successful_command_ends_confirmed:
  "fst (async_open_valve (scripted [] [] [] [] [Inr [0, 0, 0, 0, 0]] [1, 0, 0, 20, 0])
          1000 0 20 0 sample_coordinator []) = Inr () \<and>
   operation_state
     (fst (snd (async_open_valve (scripted [] [] [] [] [Inr [0, 0, 0, 0, 0]] [1, 0, 0, 20, 0])
                  1000 0 20 0 sample_coordinator []))) = CONFIRMED \<and>
   operation_state
     (fst (snd (async_open_valve (scripted [] [] [] [] [Inr [0, 0, 0, 0, 0]] [1, 0, 0, 20, 0])
                  1000 0 20 0 sample_coordinator []))) \<noteq> IDLE \<and>
   operation_state
     (fst (snd (async_open_valve (scripted [] [] [] [] [Inr [0, 0, 0, 0, 0]] [1, 0, 0, 20, 0])
                  1000 0 20 0 sample_coordinator []))) \<noteq> ERROR"
proof -
  have "fst (async_open_valve (scripted [] [] [] [] [Inr [0, 0, 0, 0, 0]] [1, 0, 0, 20, 0])
          1000 0 20 0 sample_coordinator []) = Inr ()"
    by code_simp
  then show ?thesis by (simp add: command_phases)
qed

text \<open>
  Claim C2, amended. A poll cycle with polling enabled passes through Scanning and ends
  in Idle, whether the status read succeeds or fails; a poll cycle with polling disabled
  leaves the phase as it was. \<open>open_valve\<close> and \<open>close_valve\<close> pass through Connecting and
  Opening (Closing) and end in Confirmed when the driver call returns, and in Error when
  it raises; the command itself does not set the phase back to Idle.
\<close>

theorem phase_at_end_of_operation:
  "(polling_enabled c \<longrightarrow>
      operation_state (fst (snd (async_update_data dev now c w))) = IDLE \<and>
      phase_log (fst (snd (async_update_data dev now c w))) =
        phase_log c @ [SCANNING, IDLE]) \<and>
   (\<not> polling_enabled c \<longrightarrow>
      operation_state (fst (snd (async_update_data dev now c w))) = operation_state c \<and>
      phase_log (fst (snd (async_update_data dev now c w))) = phase_log c) \<and>
   operation_state (fst (snd (async_open_valve dev now hours minutes seconds c w))) =
     (case fst (async_open_valve dev now hours minutes seconds c w) of
        Inr _ \<Rightarrow> CONFIRMED | Inl _ \<Rightarrow> ERROR) \<and>
   phase_log (fst (snd (async_open_valve dev now hours minutes seconds c w))) =
     phase_log c @ [CONNECTING, OPENING,
       operation_state (fst (snd (async_open_valve dev now hours minutes seconds c w)))] \<and>
   operation_state (fst (snd (async_close_valve dev c w))) =
     (case fst (async_close_valve dev c w) of Inr _ \<Rightarrow> CONFIRMED | Inl _ \<Rightarrow> ERROR) \<and>
   phase_log (fst (snd (async_close_valve dev c w))) =
     phase_log c @ [CONNECTING, CLOSING,
       operation_state (fst (snd (async_close_valve dev c w)))]"
  using poll_enabled_phases [of c dev now w] poll_disabled [of c dev now w]
  by (simp add: command_phases)

theorem phase_at_end_of_operation_witness:
  "polling_enabled (sample_coordinator\<lparr>polling_enabled := True\<rparr>) \<and>
   operation_state (fst (snd (async_update_data out_of_range 60
      (sample_coordinator\<lparr>polling_enabled := True\<rparr>) []))) = IDLE \<and>
   phase_log (fst (snd (async_update_data out_of_range 60
      (sample_coordinator\<lparr>polling_enabled := True\<rparr>) []))) = [SCANNING, IDLE] \<and>
   \<not> polling_enabled (sample_coordinator\<lparr>operation_state := CONFIRMED\<rparr>) \<and>
   operation_state (fst (snd (async_update_data out_of_range 60
      (sample_coordinator\<lparr>operation_state := CONFIRMED\<rparr>) []))) = CONFIRMED \<and>
   phase_log (fst (snd (async_update_data out_of_range 60
      (sample_coordinator\<lparr>operation_state := CONFIRMED\<rparr>) []))) = []"
  using phase_at_end_of_operation [of "sample_coordinator\<lparr>polling_enabled := True\<rparr>"
      out_of_range 60 "[]", THEN conjunct1]
    phase_at_end_of_operation [of "sample_coordinator\<lparr>operation_state := CONFIRMED\<rparr>"
      out_of_range 60 "[]", THEN conjunct2, THEN conjunct1]
  by (simp add: sample_coordinator_simps)

end
